theory Spec2Isabelle
  imports Main
begin

section \<open>Python values shared by both modules\<close>

text \<open>
  Exceptions are values.  Only the exception classes that the two source files raise,
  catch, or let through are listed; \<open>ValueError\<close> carries its message and
  \<open>HTTPError\<close> its status code, because the source inspects or sets them.
\<close>

datatype exn =
    KeyError
  | TypeError
  | AttributeError
  | IndexError
  | ValueError string
  | HTTPError int
  | URLError
  | FileExistsError
  | FileNotFoundError
  | NotADirectoryError
  | DbmError

text \<open>
  A \<open>pathlib.Path\<close> is the tuple of its components (\<open>Path.parts\<close>); an absolute
  path is read from the root, which is the empty tuple.
\<close>

type_synonym path = "string list"

section \<open>\<open>mir/dlsite/api.py\<close>: fetching a work\<close>

subsection \<open>URLs\<close>

text \<open>
  \<open>template.format(arg)\<close> for a template with one \<open>{}\<close> field and no other brace:
  the field is replaced by the argument.
\<close>

fun str_format :: "string \<Rightarrow> string \<Rightarrow> string" where
  "str_format [] a = []"
| "str_format [c] a = [c]"
| "str_format (c # d # cs) a =
     (if c = CHR ''{'' \<and> d = CHR ''}'' then a @ cs else c # str_format (d # cs) a)"

definition ROOT :: string where
  "ROOT = ''http://www.dlsite.com/maniax/''"

definition WORK_URL :: string where
  "WORK_URL = ROOT @ ''work/=/product_id/{}.html''"

definition ANNOUNCE_URL :: string where
  "ANNOUNCE_URL = ROOT @ ''announce/=/product_id/{}.html''"

definition get_work_url :: "string \<Rightarrow> string" where
  "get_work_url rjcode = str_format WORK_URL rjcode"

definition get_announce_url :: "string \<Rightarrow> string" where
  "get_announce_url rjcode = str_format ANNOUNCE_URL rjcode"

subsection \<open>The network\<close>

text \<open>
  \<open>urllib.request\<close> is a library outside the repository, so its two operations are
  parameters: \<open>urlopen\<close> answers a URL with a response object or raises, and
  \<open>read_decode\<close> stands for \<open>request.read().decode()\<close>.  Both may change the state
  \<open>'n\<close> of the network.  The field \<open>requested\<close> records every URL handed to
  \<open>urlopen\<close>, in order; the source does not keep it, it is there to state which
  URLs were attempted.
\<close>

record ('n, 'r) urllib =
  urlopen :: "'n \<Rightarrow> string \<Rightarrow> (exn + 'r) \<times> 'n"
  read_decode :: "'n \<Rightarrow> 'r \<Rightarrow> (exn + string) \<times> 'n"

record 'n web =
  net :: 'n
  requested :: "string list"

definition request_urlopen ::
  "('n, 'r) urllib \<Rightarrow> 'n web \<Rightarrow> string \<Rightarrow> (exn + 'r) \<times> 'n web" where
  "request_urlopen lib w url =
     (case urlopen lib (net w) url of
        (res, n') \<Rightarrow> (res, w\<lparr>net := n', requested := requested w @ [url]\<rparr>))"

definition request_read_decode ::
  "('n, 'r) urllib \<Rightarrow> 'n web \<Rightarrow> 'r \<Rightarrow> (exn + string) \<times> 'n web" where
  "request_read_decode lib w request =
     (case read_decode lib (net w) request of (res, n') \<Rightarrow> (res, w\<lparr>net := n'\<rparr>))"

text \<open>
  \<open>_get_page\<close>: the \<open>try\<close> covers only the first \<open>urlopen\<close>; the handler catches
  \<open>HTTPError\<close> alone, re-raises it unless the code is 404, and otherwise opens the
  announce URL (an exception raised there is outside the \<open>try\<close> and propagates).
\<close>

definition get_page ::
  "('n, 'r) urllib \<Rightarrow> 'n web \<Rightarrow> string \<Rightarrow> (exn + string) \<times> 'n web" where
  "get_page lib w rjcode =
     (case request_urlopen lib w (get_work_url rjcode) of
        (Inr request, w1) \<Rightarrow> request_read_decode lib w1 request
      | (Inl e, w1) \<Rightarrow>
          (case e of
             HTTPError code \<Rightarrow>
               if code \<noteq> 404 then (Inl e, w1)
               else (case request_urlopen lib w1 (get_announce_url rjcode) of
                       (Inr request, w2) \<Rightarrow> request_read_decode lib w2 request
                     | (Inl e2, w2) \<Rightarrow> (Inl e2, w2))
           | _ \<Rightarrow> (Inl e, w1)))"

subsection \<open>The parsed page\<close>

text \<open>
  \<open>bs4\<close> is a library outside the repository: the operations the source calls on a
  parsed page are parameters over the type \<open>'d\<close> of tags.  A search that finds no
  element and \<open>tag.string\<close> of a tag without a single string return Python's
  \<open>None\<close>, here \<open>None\<close> of the option type.  \<open>find_tag\<close> is \<open>tag.find(name)\<close>,
  which is also what an attribute of a tag that is not one of its own stands for, and
  \<open>find_all\<close> is \<open>tag.find_all()\<close>, which is also what calling a tag does.
\<close>

datatype 'd element = NavigableString string | Tag 'd

record 'd bs4 =
  BeautifulSoup :: "string \<Rightarrow> 'd"
  find_id :: "'d \<Rightarrow> string \<Rightarrow> 'd option"
  find_class :: "'d \<Rightarrow> string \<Rightarrow> 'd option"
  find_th_series :: "'d \<Rightarrow> 'd option"
  find_next_sibling_td :: "'d \<Rightarrow> 'd option"
  tag_a :: "'d \<Rightarrow> 'd option"
  tag_string :: "'d \<Rightarrow> string option"
  tag_contents :: "'d \<Rightarrow> 'd element list"
  find_tag :: "'d \<Rightarrow> string \<Rightarrow> 'd option"
  find_all :: "'d \<Rightarrow> 'd list"
  str_strip :: "string \<Rightarrow> string"

text \<open>\<open>str(x)\<close> for \<open>x\<close> a string or \<open>None\<close>.\<close>

definition py_str :: "string option \<Rightarrow> string" where
  "py_str x = (case x of None \<Rightarrow> ''None'' | Some s \<Rightarrow> s)"

text \<open>
  What \<open>_get_name\<close> can return: a string, or the \<open>ResultSet\<close> of a \<open>find_all\<close>.
\<close>

datatype 'd name_value = Str string | ResultSet "'d list"

text \<open>
  \<open>_get_name\<close>: \<open>soup.find(id='work_name').a.contents[-1].strip()\<close>.  An attribute
  of \<open>None\<close> raises \<open>AttributeError\<close>, and \<open>[-1]\<close> of an empty list raises
  \<open>IndexError\<close>.  On a last child that is a string, \<open>strip\<close> is the string method.
  On a last child that is a tag, the attribute \<open>strip\<close> is \<open>tag.find('strip')\<close>:
  where no such element is found it is \<open>None\<close>, and calling \<open>None\<close> raises
  \<open>TypeError\<close>; where one is found, calling that tag is its \<open>find_all()\<close>.
\<close>

definition get_name :: "'d bs4 \<Rightarrow> 'd \<Rightarrow> exn + 'd name_value" where
  "get_name bs soup =
     (case find_id bs soup ''work_name'' of
        None \<Rightarrow> Inl AttributeError
      | Some t \<Rightarrow>
          (case tag_a bs t of
             None \<Rightarrow> Inl AttributeError
           | Some a \<Rightarrow>
               (case tag_contents bs a of
                  [] \<Rightarrow> Inl IndexError
                | c # cs \<Rightarrow>
                    (case last (c # cs) of
                       NavigableString s \<Rightarrow> Inr (Str (str_strip bs s))
                     | Tag child \<Rightarrow>
                         (case find_tag bs child ''strip'' of
                            None \<Rightarrow> Inl TypeError
                          | Some found \<Rightarrow> Inr (ResultSet (find_all bs found)))))))"

text \<open>
  \<open>_get_maker\<close>:
  \<open>str(soup.find(id="work_maker").find(**{'class': 'maker_name'}).a.string)\<close>.
\<close>

definition get_maker :: "'d bs4 \<Rightarrow> 'd \<Rightarrow> exn + string" where
  "get_maker bs soup =
     (case find_id bs soup ''work_maker'' of
        None \<Rightarrow> Inl AttributeError
      | Some t \<Rightarrow>
          (case find_class bs t ''maker_name'' of
             None \<Rightarrow> Inl AttributeError
           | Some m \<Rightarrow>
               (case tag_a bs m of
                  None \<Rightarrow> Inl AttributeError
                | Some a \<Rightarrow> Inr (py_str (tag_string bs a)))))"

text \<open>
  \<open>_get_series\<close>: the chain
  \<open>soup.find(id='work_outline').find('th', string=_SERIES_PATTERN)
   .find_next_sibling('td').a.string\<close>,
  with \<open>AttributeError\<close> turned into \<open>ValueError('no series')\<close>.
\<close>

definition series_chain :: "'d bs4 \<Rightarrow> 'd \<Rightarrow> exn + string" where
  "series_chain bs soup =
     (case find_id bs soup ''work_outline'' of
        None \<Rightarrow> Inl AttributeError
      | Some t \<Rightarrow>
          (case find_th_series bs t of
             None \<Rightarrow> Inl AttributeError
           | Some th \<Rightarrow>
               (case find_next_sibling_td bs th of
                  None \<Rightarrow> Inl AttributeError
                | Some td \<Rightarrow>
                    (case tag_a bs td of
                       None \<Rightarrow> Inl AttributeError
                     | Some a \<Rightarrow> Inr (py_str (tag_string bs a))))))"

definition get_series :: "'d bs4 \<Rightarrow> 'd \<Rightarrow> exn + string" where
  "get_series bs soup =
     (case series_chain bs soup of
        Inr s \<Rightarrow> Inr s
      | Inl e \<Rightarrow> if e = AttributeError then Inl (ValueError ''no series'') else Inl e)"

text \<open>
  Modelled from the spec: the class \<open>workinfo.Work\<close> is not among the source files.
  The spec gives a work's metadata as identifier, display name, maker name and an
  optional series name; \<open>w_series = None\<close> is a record on which \<open>fetch_work\<close> has
  not assigned \<open>work.series\<close>.  The constructor stores what it is given, so the
  name is whatever \<open>_get_name\<close> returned.
\<close>

record 'd Work =
  w_rjcode :: string
  w_name :: "'d name_value"
  w_maker :: string
  w_series :: "string option"

definition is_ValueError :: "exn \<Rightarrow> bool" where
  "is_ValueError e = (case e of ValueError _ \<Rightarrow> True | _ \<Rightarrow> False)"

text \<open>
  \<open>fetch_work\<close>: the keyword arguments of \<open>Work(...)\<close> are evaluated in order, name
  before maker; only a \<open>ValueError\<close> of \<open>_get_series\<close> is swallowed.
\<close>

definition fetch_work ::
  "('n, 'r) urllib \<Rightarrow> 'd bs4 \<Rightarrow> 'n web \<Rightarrow> string \<Rightarrow> (exn + 'd Work) \<times> 'n web" where
  "fetch_work lib bs w rjcode =
     (case get_page lib w rjcode of
        (Inl e, w') \<Rightarrow> (Inl e, w')
      | (Inr page, w') \<Rightarrow>
          (let soup = BeautifulSoup bs page in
           case get_name bs soup of
             Inl e \<Rightarrow> (Inl e, w')
           | Inr n \<Rightarrow>
               (case get_maker bs soup of
                  Inl e \<Rightarrow> (Inl e, w')
                | Inr m \<Rightarrow>
                    (let work = \<lparr>w_rjcode = rjcode, w_name = n, w_maker = m, w_series = None\<rparr> in
                     case get_series bs soup of
                       Inl e \<Rightarrow> if is_ValueError e then (Inr work, w') else (Inl e, w')
                     | Inr series \<Rightarrow> (Inr (work\<lparr>w_series := Some series\<rparr>), w')))))"

section \<open>\<open>mir/dlsite/api.py\<close>: the cached fetcher\<close>

subsection \<open>Files and shelves\<close>

text \<open>
  The file system maps a path to what is there: a directory, or a \<open>shelve\<close>
  database with its key-value contents.  Permissions and other kinds of file are left
  out.
\<close>

datatype 'v node = Dir | DbFile "string \<Rightarrow> 'v option"

type_synonym 'v filesystem = "path \<Rightarrow> 'v node option"

text \<open>The paths above \<open>p\<close>, from the root down, without \<open>p\<close> itself.\<close>

definition ancestors :: "path \<Rightarrow> path list" where
  "ancestors p = map (\<lambda>n. take n p) [0..<length p]"

text \<open>
  Resolving the directory part of a path fails at the first component that is
  missing (\<open>ENOENT\<close>) or not a directory (\<open>ENOTDIR\<close>).
\<close>

definition path_error :: "'v filesystem \<Rightarrow> path \<Rightarrow> exn option" where
  "path_error fs p =
     (case find (\<lambda>q. fs q \<noteq> Some Dir) (ancestors p) of
        None \<Rightarrow> None
      | Some q \<Rightarrow> if fs q = None then Some FileNotFoundError else Some NotADirectoryError)"

definition os_mkdir :: "'v filesystem \<Rightarrow> path \<Rightarrow> exn + 'v filesystem" where
  "os_mkdir fs p =
     (case path_error fs p of
        Some e \<Rightarrow> Inl e
      | None \<Rightarrow> if fs p \<noteq> None then Inl FileExistsError else Inr (fs(p \<mapsto> Dir)))"

definition is_dir :: "'v filesystem \<Rightarrow> path \<Rightarrow> bool" where
  "is_dir fs p = (path_error fs p = None \<and> fs p = Some Dir)"

text \<open>
  \<open>Path.mkdir(exist_ok=True)\<close> of \<open>pathlib\<close>: \<open>os.mkdir\<close>, where a
  \<open>FileNotFoundError\<close> is raised again and any other \<open>OSError\<close> is swallowed when the
  path is a directory.
\<close>

definition Path_mkdir :: "'v filesystem \<Rightarrow> path \<Rightarrow> exn + 'v filesystem" where
  "Path_mkdir fs p =
     (case os_mkdir fs p of
        Inr fs' \<Rightarrow> Inr fs'
      | Inl e \<Rightarrow>
          if e = FileNotFoundError then Inl e
          else if is_dir fs p then Inr fs else Inl e)"

text \<open>
  \<open>Path.mkdir(parents=True, exist_ok=True)\<close>: on \<open>FileNotFoundError\<close> the parent is
  made first, with the same flags, and then the path itself without \<open>parents\<close>; the
  root is its own parent.
\<close>

function Path_mkdir_parents :: "'v filesystem \<Rightarrow> path \<Rightarrow> exn + 'v filesystem" where
  "Path_mkdir_parents fs p =
     (case os_mkdir fs p of
        Inr fs' \<Rightarrow> Inr fs'
      | Inl e \<Rightarrow>
          if e = FileNotFoundError then
            (if butlast p = p then Inl e
             else (case Path_mkdir_parents fs (butlast p) of
                     Inl e' \<Rightarrow> Inl e'
                   | Inr fs1 \<Rightarrow> Path_mkdir fs1 p))
          else if is_dir fs p then Inr fs else Inl e)"
  by pat_completeness auto
termination
  by (relation "measure (\<lambda>(fs, p). length p)") (auto intro!: diff_less)

text \<open>
  The condition under which \<open>Path.mkdir(parents=True, exist_ok=True)\<close> has nothing in
  its way: the path and every path above it is a directory or does not exist yet.
\<close>

definition dirs_or_missing :: "'v filesystem \<Rightarrow> path \<Rightarrow> bool" where
  "dirs_or_missing fs p = (\<forall>q \<in> set (ancestors p @ [p]). fs q = None \<or> fs q = Some Dir)"

text \<open>
  A \<open>shelve.Shelf\<close> writes through to its database file, so an open shelf is the path
  of that file.  \<open>Shelf.close()\<close> leaves an object on which every operation raises
  \<open>ValueError('invalid operation on closed shelf')\<close>.
\<close>

datatype shelf = OpenShelf path | ClosedShelf

text \<open>
  \<open>shelve.open(path)\<close> with the default flag \<open>'c'\<close>: the database is created when
  it is missing, which needs its directory to exist.  The argument may be a path
  object, as \<open>dbm\<close> accepts one from Python 3.11 on.
\<close>

definition shelve_open :: "'v filesystem \<Rightarrow> path \<Rightarrow> exn + (shelf \<times> 'v filesystem)" where
  "shelve_open fs p =
     (case path_error fs p of
        Some e \<Rightarrow> Inl DbmError
      | None \<Rightarrow>
          (case fs p of
             None \<Rightarrow> Inr (OpenShelf p, fs(p \<mapsto> DbFile Map.empty))
           | Some (DbFile m) \<Rightarrow> Inr (OpenShelf p, fs)
           | Some Dir \<Rightarrow> Inl DbmError))"

text \<open>
  \<open>self._shelf[key]\<close>, where \<open>self._shelf\<close> is \<open>None\<close> or a shelf:
  \<open>None\<close> is not subscriptable (\<open>TypeError\<close>).
\<close>

definition shelf_getitem :: "shelf option \<Rightarrow> 'v filesystem \<Rightarrow> string \<Rightarrow> exn + 'v" where
  "shelf_getitem sh fs key =
     (case sh of
        None \<Rightarrow> Inl TypeError
      | Some ClosedShelf \<Rightarrow> Inl (ValueError ''invalid operation on closed shelf'')
      | Some (OpenShelf p) \<Rightarrow>
          (case fs p of
             Some (DbFile m) \<Rightarrow> (case m key of None \<Rightarrow> Inl KeyError | Some v \<Rightarrow> Inr v)
           | _ \<Rightarrow> Inl DbmError))"

text \<open>\<open>self._shelf[key] = value\<close>.\<close>

definition shelf_setitem ::
  "shelf option \<Rightarrow> 'v filesystem \<Rightarrow> string \<Rightarrow> 'v \<Rightarrow> exn + 'v filesystem" where
  "shelf_setitem sh fs key v =
     (case sh of
        None \<Rightarrow> Inl TypeError
      | Some ClosedShelf \<Rightarrow> Inl (ValueError ''invalid operation on closed shelf'')
      | Some (OpenShelf p) \<Rightarrow>
          (case fs p of
             Some (DbFile m) \<Rightarrow> Inr (fs(p \<mapsto> DbFile (m(key \<mapsto> v))))
           | _ \<Rightarrow> Inl DbmError))"

text \<open>\<open>self._shelf.close()\<close>: \<open>None\<close> has no attribute \<open>close\<close>.\<close>

definition shelf_close :: "shelf option \<Rightarrow> exn + shelf option" where
  "shelf_close sh =
     (case sh of
        None \<Rightarrow> Inl AttributeError
      | Some _ \<Rightarrow> Inr (Some ClosedShelf))"

subsection \<open>\<open>CachedFetcher\<close>\<close>

text \<open>
  The object has its three attributes.  What lies outside it is the environment: the
  file system, the state \<open>'w\<close> on which the wrapped fetcher works, and \<open>fetched\<close>,
  the identifiers with which the wrapped fetcher has been invoked, in order (kept
  here to count invocations; the source has no such list).
\<close>

record ('w, 'v) CachedFetcher =
  self_fetcher :: "'w \<Rightarrow> string \<Rightarrow> (exn + 'v) \<times> 'w"
  self_path :: path
  self_shelf :: "shelf option"

record ('w, 'v) env =
  files :: "'v filesystem"
  world :: 'w
  fetched :: "string list"

definition CachedFetcher_init ::
  "path \<Rightarrow> ('w \<Rightarrow> string \<Rightarrow> (exn + 'v) \<times> 'w) \<Rightarrow> ('w, 'v) CachedFetcher" where
  "CachedFetcher_init p fetcher =
     \<lparr>self_fetcher = fetcher, self_path = p, self_shelf = None\<rparr>"

text \<open>\<open>self._fetcher(rjcode)\<close>, recorded in \<open>fetched\<close>.\<close>

definition invoke_fetcher ::
  "('w, 'v) CachedFetcher \<Rightarrow> string \<Rightarrow> ('w, 'v) env \<Rightarrow> (exn + 'v) \<times> ('w, 'v) env" where
  "invoke_fetcher self rjcode e =
     (case self_fetcher self (world e) rjcode of
        (res, w') \<Rightarrow> (res, e\<lparr>world := w', fetched := fetched e @ [rjcode]\<rparr>))"

text \<open>
  \<open>__call__\<close>: the two handlers belong to the lookup alone; an exception raised
  inside the \<open>KeyError\<close> handler is not caught by the \<open>TypeError\<close> handler.
\<close>

definition CachedFetcher_call ::
  "('w, 'v) CachedFetcher \<Rightarrow> string \<Rightarrow> ('w, 'v) env \<Rightarrow> (exn + 'v) \<times> ('w, 'v) env" where
  "CachedFetcher_call self rjcode e =
     (case shelf_getitem (self_shelf self) (files e) rjcode of
        Inr v \<Rightarrow> (Inr v, e)
      | Inl x \<Rightarrow>
          if x = KeyError then
            (case invoke_fetcher self rjcode e of
               (Inl x', e1) \<Rightarrow> (Inl x', e1)
             | (Inr work_info, e1) \<Rightarrow>
                 (case shelf_setitem (self_shelf self) (files e1) rjcode work_info of
                    Inl x' \<Rightarrow> (Inl x', e1)
                  | Inr fs' \<Rightarrow> (Inr work_info, e1\<lparr>files := fs'\<rparr>)))
          else if x = TypeError then (Inl (ValueError ''called unopened CachedFetcher''), e)
          else (Inl x, e))"

definition CachedFetcher_enter ::
  "('w, 'v) CachedFetcher \<Rightarrow> ('w, 'v) env
     \<Rightarrow> (exn + ('w, 'v) CachedFetcher) \<times> ('w, 'v) env" where
  "CachedFetcher_enter self e =
     (case shelve_open (files e) (self_path self) of
        Inl x \<Rightarrow> (Inl x, e)
      | Inr (sh, fs') \<Rightarrow> (Inr (self\<lparr>self_shelf := Some sh\<rparr>), e\<lparr>files := fs'\<rparr>))"

definition CachedFetcher_close :: "('w, 'v) CachedFetcher \<Rightarrow> exn + ('w, 'v) CachedFetcher" where
  "CachedFetcher_close self =
     (case shelf_close (self_shelf self) of
        Inl x \<Rightarrow> Inl x
      | Inr sh \<Rightarrow> Inr (self\<lparr>self_shelf := sh\<rparr>))"

definition CachedFetcher_exit :: "('w, 'v) CachedFetcher \<Rightarrow> exn + ('w, 'v) CachedFetcher" where
  "CachedFetcher_exit self = CachedFetcher_close self"

text \<open>Calls one after the other on the same object, whatever each one returns.\<close>

fun call_each ::
  "('w, 'v) CachedFetcher \<Rightarrow> string list \<Rightarrow> ('w, 'v) env
     \<Rightarrow> (exn + 'v) list \<times> ('w, 'v) env" where
  "call_each self [] e = ([], e)"
| "call_each self (k # ks) e =
     (case CachedFetcher_call self k e of
        (r, e1) \<Rightarrow> (case call_each self ks e1 of (rs, e2) \<Rightarrow> (r # rs, e2)))"

subsection \<open>\<open>get_fetcher\<close>\<close>

text \<open>\<open>_CACHE = Path.home() / '.cache' / 'mir.dlsite.db'\<close>, for the home directory given.\<close>

definition CACHE :: "path \<Rightarrow> path" where
  "CACHE home = home @ [''.cache'', ''mir.dlsite.db'']"

definition get_fetcher ::
  "('n, 'r) urllib \<Rightarrow> 'd bs4 \<Rightarrow> path \<Rightarrow> 'd Work filesystem
     \<Rightarrow> exn + (('n web, 'd Work) CachedFetcher \<times> 'd Work filesystem)" where
  "get_fetcher lib bs home fs =
     (case Path_mkdir_parents fs (butlast (CACHE home)) of
        Inl e \<Rightarrow> Inl e
      | Inr fs' \<Rightarrow> Inr (CachedFetcher_init (CACHE home) (fetch_work lib bs), fs'))"

section \<open>\<open>mir/dlsite/cmd/dlorg.py\<close>\<close>

text \<open>
  The module \<open>mir.dlsite.org\<close> is not among the source files, so the four operations
  that \<open>main\<close> calls are parameters, over the type \<open>'f\<close> of what they act on and
  the type \<open>'r\<close> of a rename.  The two sequences are taken as the finite lists they
  yield.  Each effectful operation returns the state it leaves behind, also when it
  raises.
\<close>

record ('f, 'r) org =
  find_works :: "'f \<Rightarrow> path \<Rightarrow> path list"
  calculate_path_renames :: "'f \<Rightarrow> path list \<Rightarrow> 'r list"
  execute :: "'r \<Rightarrow> path \<Rightarrow> 'f \<Rightarrow> (exn + unit) \<times> 'f"
  remove_empty_dirs :: "path \<Rightarrow> 'f \<Rightarrow> (exn + unit) \<times> 'f"

text \<open>The parsed command line.\<close>

record args =
  top_dir :: path
  dry_run :: bool
  all_flag :: bool

text \<open>What the process acts on, and the lines it has printed.\<close>

record 'f process =
  fsys :: 'f
  printed :: "string list"

text \<open>Lines 36 to 38: the works handed to the planner.\<close>

definition selected_works :: "('f, 'r) org \<Rightarrow> args \<Rightarrow> 'f \<Rightarrow> path list" where
  "selected_works og a f =
     (let works = find_works og f (top_dir a)
      in if \<not> all_flag a then filter (\<lambda>p. length p = 1) works else works)"

text \<open>The loop \<open>for r in renames: r.execute(args.top_dir)\<close>; an exception leaves it.\<close>

fun execute_each ::
  "('f, 'r) org \<Rightarrow> path \<Rightarrow> 'r list \<Rightarrow> 'f process \<Rightarrow> (exn + unit) \<times> 'f process" where
  "execute_each og d [] s = (Inr (), s)"
| "execute_each og d (r # rs) s =
     (case execute og r d (fsys s) of
        (Inl e, f') \<Rightarrow> (Inl e, s\<lparr>fsys := f'\<rparr>)
      | (Inr u, f') \<Rightarrow> execute_each og d rs (s\<lparr>fsys := f'\<rparr>))"

text \<open>\<open>main\<close>, after the command line is parsed.  The dry-run branch is \<open>...\<close>.\<close>

definition main :: "('f, 'r) org \<Rightarrow> args \<Rightarrow> 'f process \<Rightarrow> (exn + unit) \<times> 'f process" where
  "main og a s =
     (let works = selected_works og a (fsys s);
          renames = calculate_path_renames og (fsys s) works
      in if dry_run a then (Inr (), s)
         else (case execute_each og (top_dir a) renames s of
                 (Inl e, s1) \<Rightarrow> (Inl e, s1)
               | (Inr u, s1) \<Rightarrow>
                   (case remove_empty_dirs og (top_dir a) (fsys s1) of
                      (res, f') \<Rightarrow> (res, s1\<lparr>fsys := f'\<rparr>))))"

section \<open>Concrete inputs\<close>

subsection \<open>A network\<close>

text \<open>
  The work page of \<open>RJ999999\<close> is not found, the one of \<open>RJ000000\<close> fails with a
  server error, every other URL answers; the state counts the requests.
\<close>

definition ex_urlopen :: "nat \<Rightarrow> string \<Rightarrow> (exn + string) \<times> nat" where
  "ex_urlopen n url =
     (if url = ''http://www.dlsite.com/maniax/work/=/product_id/RJ999999.html''
      then (Inl (HTTPError 404), Suc n)
      else if url = ''http://www.dlsite.com/maniax/work/=/product_id/RJ000000.html''
      then (Inl (HTTPError 500), Suc n)
      else (Inr url, Suc n))"

definition ex_read_decode :: "nat \<Rightarrow> string \<Rightarrow> (exn + string) \<times> nat" where
  "ex_read_decode n request = (Inr (''page at '' @ request), n)"

definition ex_urllib :: "(nat, string) urllib" where
  "ex_urllib = \<lparr>urlopen = ex_urlopen, read_decode = ex_read_decode\<rparr>"

definition ex_web :: "nat \<Rightarrow> string list \<Rightarrow> nat web" where
  "ex_web n l = \<lparr>net = n, requested = l\<rparr>"

subsection \<open>Parsed pages\<close>

text \<open>
  A page is named by its text, and a tag is the list of element names from itself up
  to the page.  The page \<open>with series\<close> has a series row, the page \<open>no name\<close> has no
  element \<open>work_name\<close>, the page \<open>no maker link\<close> has no element of class
  \<open>maker_name\<close>, and on the page \<open>no maker text\<close> the maker's link holds no single
  string; every other page has name and maker and no series.
\<close>

definition ex_find_id :: "string list \<Rightarrow> string \<Rightarrow> string list option" where
  "ex_find_id d i = (if i = ''work_name'' \<and> last d = ''no name'' then None else Some (i # d))"

definition ex_find_class :: "string list \<Rightarrow> string \<Rightarrow> string list option" where
  "ex_find_class d c = (if last d = ''no maker link'' then None else Some (c # d))"

definition ex_find_th_series :: "string list \<Rightarrow> string list option" where
  "ex_find_th_series d = (if last d = ''with series'' then Some (''th'' # d) else None)"

definition ex_find_next_sibling_td :: "string list \<Rightarrow> string list option" where
  "ex_find_next_sibling_td d = Some (''td'' # d)"

definition ex_tag_a :: "string list \<Rightarrow> string list option" where
  "ex_tag_a d = Some (''a'' # d)"

definition ex_tag_string :: "string list \<Rightarrow> string option" where
  "ex_tag_string d =
     (if last d = ''no maker text'' \<and> d ! 1 = ''maker_name'' then None
      else Some (''text of '' @ d ! 1))"

definition ex_tag_contents :: "string list \<Rightarrow> string list element list" where
  "ex_tag_contents d = [Tag (''span'' # d), NavigableString '' Example Work '']"

definition ex_find_tag :: "string list \<Rightarrow> string \<Rightarrow> string list option" where
  "ex_find_tag d n = None"

definition ex_find_all :: "string list \<Rightarrow> string list list" where
  "ex_find_all d = []"

definition ex_str_strip :: "string \<Rightarrow> string" where
  "ex_str_strip s =
     rev (dropWhile (\<lambda>c. c = CHR '' '') (rev (dropWhile (\<lambda>c. c = CHR '' '') s)))"

definition ex_BeautifulSoup :: "string \<Rightarrow> string list" where
  "ex_BeautifulSoup page = [page]"

definition ex_bs4 :: "string list bs4" where
  "ex_bs4 =
     \<lparr>BeautifulSoup = ex_BeautifulSoup, find_id = ex_find_id, find_class = ex_find_class,
      find_th_series = ex_find_th_series, find_next_sibling_td = ex_find_next_sibling_td,
      tag_a = ex_tag_a, tag_string = ex_tag_string, tag_contents = ex_tag_contents,
      find_tag = ex_find_tag, find_all = ex_find_all, str_strip = ex_str_strip\<rparr>"

definition ex_page_urlopen :: "unit \<Rightarrow> string \<Rightarrow> (exn + string) \<times> unit" where
  "ex_page_urlopen n url =
     (if url = get_work_url ''RJ111111'' then (Inr ''with series'', n)
      else if url = get_work_url ''RJ222222'' then (Inr ''no name'', n)
      else if url = get_work_url ''RJ444444'' then (Inr ''no maker text'', n)
      else if url = get_work_url ''RJ555555'' then (Inr ''no maker link'', n)
      else (Inr ''plain'', n))"

definition ex_page_read :: "unit \<Rightarrow> string \<Rightarrow> (exn + string) \<times> unit" where
  "ex_page_read n request = (Inr request, n)"

definition ex_pages :: "(unit, string) urllib" where
  "ex_pages = \<lparr>urlopen = ex_page_urlopen, read_decode = ex_page_read\<rparr>"

definition ex_site :: "string list \<Rightarrow> unit web" where
  "ex_site l = \<lparr>net = (), requested = l\<rparr>"

subsection \<open>A cached fetcher\<close>

text \<open>
  A wrapped fetcher that counts its invocations in its state: the first invocation
  fails, every later one succeeds.
\<close>

definition ex_fetcher :: "nat \<Rightarrow> string \<Rightarrow> (exn + string) \<times> nat" where
  "ex_fetcher w rjcode =
     (if w = 0 then (Inl URLError, Suc w) else (Inr (''work '' @ rjcode), Suc w))"

definition ex_path :: path where
  "ex_path = [''db'']"

text \<open>A file system with the root directory alone, and one with a database in it.\<close>

definition ex_files :: "string filesystem" where
  "ex_files = [[] \<mapsto> Dir]"

definition ex_files_db :: "(string \<Rightarrow> string option) \<Rightarrow> string filesystem" where
  "ex_files_db m = [[] \<mapsto> Dir, ex_path \<mapsto> DbFile m]"

definition ex_self :: "shelf option \<Rightarrow> (nat, string) CachedFetcher" where
  "ex_self sh = \<lparr>self_fetcher = ex_fetcher, self_path = ex_path, self_shelf = sh\<rparr>"

definition ex_env :: "string filesystem \<Rightarrow> nat \<Rightarrow> string list \<Rightarrow> (nat, string) env" where
  "ex_env fs w l = \<lparr>files = fs, world = w, fetched = l\<rparr>"

text \<open>A home directory that has no \<open>.cache\<close> yet.\<close>

definition ex_home :: path where
  "ex_home = [''home'', ''user'']"

definition ex_home_files :: "string list Work filesystem" where
  "ex_home_files = [[] \<mapsto> Dir, [''home''] \<mapsto> Dir, [''home'', ''user''] \<mapsto> Dir]"

subsection \<open>Work folders\<close>

text \<open>
  A collaborator whose state is the log of what was done to the file system.  Three
  work folders are found, one of them below a subdirectory; the rename of that one
  fails.
\<close>

definition ex_find_works :: "string list \<Rightarrow> path \<Rightarrow> path list" where
  "ex_find_works f d = [[''RJ111111''], [''sub'', ''RJ222222''], [''RJ333333'']]"

definition ex_calculate_path_renames :: "string list \<Rightarrow> path list \<Rightarrow> string list" where
  "ex_calculate_path_renames f works = map last works"

definition ex_execute :: "string \<Rightarrow> path \<Rightarrow> string list \<Rightarrow> (exn + unit) \<times> string list" where
  "ex_execute r d f =
     (if r = ''RJ222222'' then (Inl FileExistsError, f) else (Inr (), f @ [''renamed '' @ r]))"

definition ex_remove_empty_dirs :: "path \<Rightarrow> string list \<Rightarrow> (exn + unit) \<times> string list" where
  "ex_remove_empty_dirs d f = (Inr (), f @ [''removed empty directories''])"

definition ex_org :: "(string list, string) org" where
  "ex_org =
     \<lparr>find_works = ex_find_works, calculate_path_renames = ex_calculate_path_renames,
      execute = ex_execute, remove_empty_dirs = ex_remove_empty_dirs\<rparr>"

definition ex_args :: "bool \<Rightarrow> bool \<Rightarrow> args" where
  "ex_args n a = \<lparr>top_dir = [''works''], dry_run = n, all_flag = a\<rparr>"

definition ex_process :: "string list \<Rightarrow> string list process" where
  "ex_process f = \<lparr>fsys = f, printed = []\<rparr>"

lemmas web_defs = ex_urlopen_def ex_read_decode_def ex_urllib_def ex_web_def

lemmas bs_defs =
  ex_find_id_def ex_find_class_def ex_find_th_series_def ex_find_next_sibling_td_def
  ex_tag_a_def ex_tag_string_def ex_tag_contents_def ex_find_tag_def ex_find_all_def
  ex_str_strip_def ex_BeautifulSoup_def ex_bs4_def ex_page_urlopen_def ex_page_read_def
  ex_pages_def ex_site_def

lemmas ex_defs =
  ex_fetcher_def ex_path_def ex_files_def ex_files_db_def ex_self_def ex_env_def

lemmas org_defs =
  ex_find_works_def ex_calculate_path_renames_def ex_execute_def ex_remove_empty_dirs_def
  ex_org_def ex_args_def ex_process_def

lemmas cf_defs =
  CachedFetcher_call_def CachedFetcher_close_def CachedFetcher_exit_def
  CachedFetcher_init_def CachedFetcher_enter_def shelf_close_def shelf_getitem_def
  shelf_setitem_def invoke_fetcher_def shelve_open_def

section \<open>Properties of fetching a work\<close>

lemma get_work_url_eq:
  "get_work_url rjcode = ''http://www.dlsite.com/maniax/work/=/product_id/'' @ rjcode @ ''.html''"
  by (simp add: get_work_url_def WORK_URL_def ROOT_def)

lemma get_announce_url_eq:
  "get_announce_url rjcode
     = ''http://www.dlsite.com/maniax/announce/=/product_id/'' @ rjcode @ ''.html''"
  by (simp add: get_announce_url_def ANNOUNCE_URL_def ROOT_def)

text \<open>
  C4.  \<open>_get_page\<close> first opens the work URL.  The announce URL is opened exactly when
  that request fails with \<open>HTTPError\<close> 404, and then the outcome of the announce
  request is the outcome of \<open>_get_page\<close>.  Any other exception of the first request is
  returned as it is, with the work URL the only one requested.
\<close>

theorem get_page_fallback:
  assumes "urlopen lib (net w) (get_work_url k) = (r1, n1)"
    and "w1 = w\<lparr>net := n1, requested := requested w @ [get_work_url k]\<rparr>"
  shows "requested (snd (get_page lib w k))
           = requested w @ get_work_url k
               # (if r1 = Inl (HTTPError 404) then [get_announce_url k] else [])
       \<and> get_work_url k = ''http://www.dlsite.com/maniax/work/=/product_id/'' @ k @ ''.html''
       \<and> get_announce_url k
           = ''http://www.dlsite.com/maniax/announce/=/product_id/'' @ k @ ''.html''
       \<and> (\<forall>request. r1 = Inr request \<longrightarrow>
             get_page lib w k = request_read_decode lib w1 request)
       \<and> (r1 = Inl (HTTPError 404) \<longrightarrow>
             get_page lib w k
               = (case request_urlopen lib w1 (get_announce_url k) of
                    (Inr request, w2) \<Rightarrow> request_read_decode lib w2 request
                  | (Inl e, w2) \<Rightarrow> (Inl e, w2)))
       \<and> (\<forall>e. r1 = Inl e \<and> e \<noteq> HTTPError 404 \<longrightarrow> get_page lib w k = (Inl e, w1))"
proof -
  have "requested (snd (get_page lib w k))
           = requested w @ get_work_url k
               # (if r1 = Inl (HTTPError 404) then [get_announce_url k] else [])
       \<and> (\<forall>request. r1 = Inr request \<longrightarrow>
             get_page lib w k = request_read_decode lib w1 request)
       \<and> (r1 = Inl (HTTPError 404) \<longrightarrow>
             get_page lib w k
               = (case request_urlopen lib w1 (get_announce_url k) of
                    (Inr request, w2) \<Rightarrow> request_read_decode lib w2 request
                  | (Inl e, w2) \<Rightarrow> (Inl e, w2)))
       \<and> (\<forall>e. r1 = Inl e \<and> e \<noteq> HTTPError 404 \<longrightarrow> get_page lib w k = (Inl e, w1))"
    using assms
    by (auto simp add: get_page_def request_urlopen_def request_read_decode_def
        split: prod.splits sum.splits exn.splits)
  then show ?thesis
    using get_work_url_eq [of k] get_announce_url_eq [of k] by blast
qed

text \<open>
  \<open>RJ999999\<close>: not found at the work URL, so the announce page is returned.
  \<open>RJ000000\<close>: the server error is returned and the announce URL is not requested.
  \<open>RJ123456\<close>: the work page is returned.
\<close>

theorem get_page_fallback_witness:
  "get_page ex_urllib (ex_web 0 []) ''RJ999999''
     = (Inr ''page at http://www.dlsite.com/maniax/announce/=/product_id/RJ999999.html'',
        ex_web 2 [''http://www.dlsite.com/maniax/work/=/product_id/RJ999999.html'',
                  ''http://www.dlsite.com/maniax/announce/=/product_id/RJ999999.html''])
   \<and> get_page ex_urllib (ex_web 0 []) ''RJ000000''
     = (Inl (HTTPError 500),
        ex_web 1 [''http://www.dlsite.com/maniax/work/=/product_id/RJ000000.html''])
   \<and> get_page ex_urllib (ex_web 0 []) ''RJ123456''
     = (Inr ''page at http://www.dlsite.com/maniax/work/=/product_id/RJ123456.html'',
        ex_web 1 [''http://www.dlsite.com/maniax/work/=/product_id/RJ123456.html''])"
proof -
  have a: "urlopen ex_urllib (net (ex_web 0 [])) (get_work_url ''RJ999999'')
             = (Inl (HTTPError 404), 1)"
    by (simp add: web_defs get_work_url_eq)
  have b: "urlopen ex_urllib (net (ex_web 0 [])) (get_work_url ''RJ000000'')
             = (Inl (HTTPError 500), 1)"
    by (simp add: web_defs get_work_url_eq)
  have c: "urlopen ex_urllib (net (ex_web 0 [])) (get_work_url ''RJ123456'')
             = (Inr (get_work_url ''RJ123456''), 1)"
    by (simp add: web_defs get_work_url_eq)
  from get_page_fallback [OF a refl] get_page_fallback [OF b refl] get_page_fallback [OF c refl]
  show ?thesis
    by (simp add: web_defs request_urlopen_def request_read_decode_def get_work_url_eq
        get_announce_url_eq)
qed

text \<open>The series chain either finds the series link or raises \<open>AttributeError\<close>.\<close>

lemma series_chain_cases:
  "series_chain bs soup = Inl AttributeError \<or> (\<exists>s. series_chain bs soup = Inr s)"
  by (simp add: series_chain_def split: option.splits)

lemma get_series_cases:
  "get_series bs soup
     = (case series_chain bs soup of Inr s \<Rightarrow> Inr s | Inl e \<Rightarrow> Inl (ValueError ''no series''))"
  using series_chain_cases [of bs soup]
  by (auto simp add: get_series_def)

text \<open>The name, once the element \<open>work_name\<close> and its link are found.\<close>

lemma get_name_link:
  assumes "find_id bs soup ''work_name'' = Some t"
    and "tag_a bs t = Some a"
  shows "get_name bs soup
           = (if tag_contents bs a = [] then Inl IndexError
              else (case last (tag_contents bs a) of
                      NavigableString s \<Rightarrow> Inr (Str (str_strip bs s))
                    | Tag child \<Rightarrow>
                        (case find_tag bs child ''strip'' of
                           None \<Rightarrow> Inl TypeError
                         | Some found \<Rightarrow> Inr (ResultSet (find_all bs found)))))"
proof (cases "tag_contents bs a")
  case Nil
  with assms show ?thesis by (simp add: get_name_def)
next
  case (Cons c cs)
  with assms show ?thesis by (simp add: get_name_def)
qed

text \<open>
  C7, as the claim states it, fails: on a page whose maker link is there but holds no
  single string, \<open>tag.string\<close> is \<open>None\<close>, \<open>str(None)\<close> is the text \<open>None\<close>,
  and \<open>fetch_work\<close> returns a record with that text as the maker instead of failing.
\<close>

theorem fetch_work_counterexample:
  "tag_string ex_bs4 [''a'', ''maker_name'', ''work_maker'', ''no maker text''] = None
   \<and> fetch_work ex_pages ex_bs4 (ex_site []) ''RJ444444''
       = (Inr \<lparr>w_rjcode = ''RJ444444'', w_name = Str ''Example Work'',
                w_maker = ''None'', w_series = None\<rparr>,
          ex_site [''http://www.dlsite.com/maniax/work/=/product_id/RJ444444.html''])"
  by (simp add: fetch_work_def get_page_def request_urlopen_def request_read_decode_def
      get_name_def get_maker_def get_series_def series_chain_def py_str_def is_ValueError_def
      get_work_url_eq bs_defs)

text \<open>
  C7, amended.  For a page that was fetched, \<open>fetch_work\<close> returns a record with the
  identifier, the name and the maker whenever \<open>_get_name\<close> and \<open>_get_maker\<close> return,
  with the series set exactly when the series chain returns; an exception of the name
  or of the maker is the error of \<open>fetch_work\<close>, and a missing series is not an error.
  The name fails with \<open>AttributeError\<close> when the element \<open>work_name\<close> or its link is
  missing, and with \<open>IndexError\<close> when the link has no children; it is the stripped
  last child when that is a string; when that is a tag, it fails with \<open>TypeError\<close>
  unless the tag holds an element \<open>strip\<close>, whose \<open>find_all()\<close> is then the name.
  The maker fails with \<open>AttributeError\<close> when the element \<open>work_maker\<close>, its element
  of class \<open>maker_name\<close> or the link of that is missing; the series is left unset
  when an element of its chain is missing.  A maker link or series link that is there
  but holds no single string is no error: the field is then the text \<open>None\<close>.
\<close>

theorem fetch_work_record:
  assumes "get_page lib w k = (Inr page, w')"
    and "soup = BeautifulSoup bs page"
  shows "(\<forall>n m. get_name bs soup = Inr n \<and> get_maker bs soup = Inr m \<longrightarrow>
            fetch_work lib bs w k
              = (Inr \<lparr>w_rjcode = k, w_name = n, w_maker = m,
                       w_series = (case series_chain bs soup of
                                     Inr s \<Rightarrow> Some s | Inl e \<Rightarrow> None)\<rparr>, w'))
       \<and> (\<forall>e. get_name bs soup = Inl e \<longrightarrow> fetch_work lib bs w k = (Inl e, w'))
       \<and> (\<forall>n e. get_name bs soup = Inr n \<and> get_maker bs soup = Inl e \<longrightarrow>
            fetch_work lib bs w k = (Inl e, w'))
       \<and> ((\<nexists>t a. find_id bs soup ''work_name'' = Some t \<and> tag_a bs t = Some a) \<longrightarrow>
            get_name bs soup = Inl AttributeError)
       \<and> (\<forall>t a. find_id bs soup ''work_name'' = Some t \<and> tag_a bs t = Some a \<longrightarrow>
            (tag_contents bs a = [] \<longrightarrow> get_name bs soup = Inl IndexError)
            \<and> (\<forall>cs s. tag_contents bs a = cs @ [NavigableString s] \<longrightarrow>
                  get_name bs soup = Inr (Str (str_strip bs s)))
            \<and> (\<forall>cs child. tag_contents bs a = cs @ [Tag child] \<longrightarrow>
                  get_name bs soup
                    = (case find_tag bs child ''strip'' of
                         None \<Rightarrow> Inl TypeError
                       | Some found \<Rightarrow> Inr (ResultSet (find_all bs found)))))
       \<and> ((\<nexists>t m a. find_id bs soup ''work_maker'' = Some t
               \<and> find_class bs t ''maker_name'' = Some m \<and> tag_a bs m = Some a) \<longrightarrow>
            get_maker bs soup = Inl AttributeError)
       \<and> (\<forall>t m a. find_id bs soup ''work_maker'' = Some t
               \<and> find_class bs t ''maker_name'' = Some m \<and> tag_a bs m = Some a \<longrightarrow>
            get_maker bs soup = Inr (py_str (tag_string bs a)))
       \<and> ((\<nexists>t th td a. find_id bs soup ''work_outline'' = Some t
               \<and> find_th_series bs t = Some th
               \<and> find_next_sibling_td bs th = Some td \<and> tag_a bs td = Some a) \<longrightarrow>
            series_chain bs soup = Inl AttributeError)
       \<and> (\<forall>t th td a. find_id bs soup ''work_outline'' = Some t
               \<and> find_th_series bs t = Some th
               \<and> find_next_sibling_td bs th = Some td \<and> tag_a bs td = Some a \<longrightarrow>
            series_chain bs soup = Inr (py_str (tag_string bs a)))
       \<and> py_str None = ''None'' \<and> (\<forall>s. py_str (Some s) = s)"
proof -
  have r: "\<forall>n m. get_name bs soup = Inr n \<and> get_maker bs soup = Inr m \<longrightarrow>
            fetch_work lib bs w k
              = (Inr \<lparr>w_rjcode = k, w_name = n, w_maker = m,
                       w_series = (case series_chain bs soup of
                                     Inr s \<Rightarrow> Some s | Inl e \<Rightarrow> None)\<rparr>, w')"
    using assms
    by (simp add: fetch_work_def get_series_cases is_ValueError_def split: sum.splits)
  have en: "\<forall>e. get_name bs soup = Inl e \<longrightarrow> fetch_work lib bs w k = (Inl e, w')"
    using assms by (simp add: fetch_work_def)
  have em: "\<forall>n e. get_name bs soup = Inr n \<and> get_maker bs soup = Inl e \<longrightarrow>
            fetch_work lib bs w k = (Inl e, w')"
    using assms by (simp add: fetch_work_def)
  have n0: "(\<nexists>t a. find_id bs soup ''work_name'' = Some t \<and> tag_a bs t = Some a) \<longrightarrow>
            get_name bs soup = Inl AttributeError"
    by (auto simp add: get_name_def split: option.splits)
  have n1: "\<forall>t a. find_id bs soup ''work_name'' = Some t \<and> tag_a bs t = Some a \<longrightarrow>
            (tag_contents bs a = [] \<longrightarrow> get_name bs soup = Inl IndexError)
            \<and> (\<forall>cs s. tag_contents bs a = cs @ [NavigableString s] \<longrightarrow>
                  get_name bs soup = Inr (Str (str_strip bs s)))
            \<and> (\<forall>cs child. tag_contents bs a = cs @ [Tag child] \<longrightarrow>
                  get_name bs soup
                    = (case find_tag bs child ''strip'' of
                         None \<Rightarrow> Inl TypeError
                       | Some found \<Rightarrow> Inr (ResultSet (find_all bs found))))"
    by (simp add: get_name_link)
  have m0: "(\<nexists>t m a. find_id bs soup ''work_maker'' = Some t
               \<and> find_class bs t ''maker_name'' = Some m \<and> tag_a bs m = Some a) \<longrightarrow>
            get_maker bs soup = Inl AttributeError"
    by (auto simp add: get_maker_def split: option.splits)
  have m1: "\<forall>t m a. find_id bs soup ''work_maker'' = Some t
               \<and> find_class bs t ''maker_name'' = Some m \<and> tag_a bs m = Some a \<longrightarrow>
            get_maker bs soup = Inr (py_str (tag_string bs a))"
    by (simp add: get_maker_def)
  have s0: "(\<nexists>t th td a. find_id bs soup ''work_outline'' = Some t
               \<and> find_th_series bs t = Some th
               \<and> find_next_sibling_td bs th = Some td \<and> tag_a bs td = Some a) \<longrightarrow>
            series_chain bs soup = Inl AttributeError"
    by (auto simp add: series_chain_def split: option.splits)
  have s1: "\<forall>t th td a. find_id bs soup ''work_outline'' = Some t
               \<and> find_th_series bs t = Some th
               \<and> find_next_sibling_td bs th = Some td \<and> tag_a bs td = Some a \<longrightarrow>
            series_chain bs soup = Inr (py_str (tag_string bs a))"
    by (simp add: series_chain_def)
  have p0: "py_str None = ''None''" and p1: "\<forall>s. py_str (Some s) = s"
    by (simp_all add: py_str_def)
  show ?thesis
    by (intro conjI r en em n0 n1 m0 m1 s0 s1 p0 p1)
qed

text \<open>
  A page with a series, a page without one, a page without the name element, a page
  without the maker's element, and a page whose maker link holds no single string.
\<close>

theorem fetch_work_record_witness:
  "fetch_work ex_pages ex_bs4 (ex_site []) ''RJ111111''
     = (Inr \<lparr>w_rjcode = ''RJ111111'', w_name = Str ''Example Work'',
              w_maker = ''text of maker_name'', w_series = Some ''text of td''\<rparr>,
        ex_site [get_work_url ''RJ111111''])
   \<and> fetch_work ex_pages ex_bs4 (ex_site []) ''RJ333333''
     = (Inr \<lparr>w_rjcode = ''RJ333333'', w_name = Str ''Example Work'',
              w_maker = ''text of maker_name'', w_series = None\<rparr>,
        ex_site [get_work_url ''RJ333333''])
   \<and> fetch_work ex_pages ex_bs4 (ex_site []) ''RJ222222''
     = (Inl AttributeError, ex_site [get_work_url ''RJ222222''])
   \<and> fetch_work ex_pages ex_bs4 (ex_site []) ''RJ555555''
     = (Inl AttributeError, ex_site [get_work_url ''RJ555555''])
   \<and> fetch_work ex_pages ex_bs4 (ex_site []) ''RJ444444''
     = (Inr \<lparr>w_rjcode = ''RJ444444'', w_name = Str ''Example Work'',
              w_maker = ''None'', w_series = None\<rparr>,
        ex_site [get_work_url ''RJ444444''])"
proof -
  have p1: "get_page ex_pages (ex_site []) ''RJ111111''
              = (Inr ''with series'', ex_site [get_work_url ''RJ111111''])"
    by (simp add: get_page_def request_urlopen_def request_read_decode_def bs_defs)
  have p2: "get_page ex_pages (ex_site []) ''RJ222222''
              = (Inr ''no name'', ex_site [get_work_url ''RJ222222''])"
    by (simp add: get_page_def request_urlopen_def request_read_decode_def bs_defs
        get_work_url_eq)
  have p3: "get_page ex_pages (ex_site []) ''RJ333333''
              = (Inr ''plain'', ex_site [get_work_url ''RJ333333''])"
    by (simp add: get_page_def request_urlopen_def request_read_decode_def bs_defs
        get_work_url_eq)
  have p4: "get_page ex_pages (ex_site []) ''RJ444444''
              = (Inr ''no maker text'', ex_site [get_work_url ''RJ444444''])"
    by (simp add: get_page_def request_urlopen_def request_read_decode_def bs_defs
        get_work_url_eq)
  have p5: "get_page ex_pages (ex_site []) ''RJ555555''
              = (Inr ''no maker link'', ex_site [get_work_url ''RJ555555''])"
    by (simp add: get_page_def request_urlopen_def request_read_decode_def bs_defs
        get_work_url_eq)
  have n: "get_name ex_bs4 (BeautifulSoup ex_bs4 ''with series'') = Inr (Str ''Example Work'')"
    "get_name ex_bs4 (BeautifulSoup ex_bs4 ''plain'') = Inr (Str ''Example Work'')"
    "get_name ex_bs4 (BeautifulSoup ex_bs4 ''no maker text'') = Inr (Str ''Example Work'')"
    "get_name ex_bs4 (BeautifulSoup ex_bs4 ''no maker link'') = Inr (Str ''Example Work'')"
    "get_name ex_bs4 (BeautifulSoup ex_bs4 ''no name'') = Inl AttributeError"
    by (simp_all add: get_name_def bs_defs)
  have m: "get_maker ex_bs4 (BeautifulSoup ex_bs4 ''with series'') = Inr ''text of maker_name''"
    "get_maker ex_bs4 (BeautifulSoup ex_bs4 ''plain'') = Inr ''text of maker_name''"
    "get_maker ex_bs4 (BeautifulSoup ex_bs4 ''no maker text'') = Inr ''None''"
    "get_maker ex_bs4 (BeautifulSoup ex_bs4 ''no maker link'') = Inl AttributeError"
    by (simp_all add: get_maker_def py_str_def bs_defs)
  have s: "series_chain ex_bs4 (BeautifulSoup ex_bs4 ''with series'') = Inr ''text of td''"
    "series_chain ex_bs4 (BeautifulSoup ex_bs4 ''plain'') = Inl AttributeError"
    "series_chain ex_bs4 (BeautifulSoup ex_bs4 ''no maker text'') = Inl AttributeError"
    by (simp_all add: series_chain_def py_str_def bs_defs)
  from fetch_work_record [OF p1 refl, of ex_bs4] fetch_work_record [OF p2 refl, of ex_bs4]
    fetch_work_record [OF p3 refl, of ex_bs4] fetch_work_record [OF p4 refl, of ex_bs4]
    fetch_work_record [OF p5 refl, of ex_bs4] n m s
  show ?thesis by simp
qed

section \<open>Properties of the cached fetcher\<close>

text \<open>
  C1.  On a cache miss (the shelf is open and its database has no entry for the
  identifier) the wrapped fetcher is invoked exactly once.  If it succeeds, the call
  returns its result and leaves the database with that result stored under the
  identifier.  If it fails, the call returns the fetcher's error, the database is as
  before, and a second call for the same identifier invokes the fetcher again.
\<close>

theorem cache_miss:
  assumes "self_shelf self = Some (OpenShelf p)"
    and "files e p = Some (DbFile m)"
    and "m k = None"
  shows "(\<forall>v w'. self_fetcher self (world e) k = (Inr v, w') \<longrightarrow>
            CachedFetcher_call self k e
              = (Inr v, e\<lparr>world := w', fetched := fetched e @ [k],
                          files := (files e)(p \<mapsto> DbFile (m(k \<mapsto> v)))\<rparr>))
       \<and> (\<forall>x w'. self_fetcher self (world e) k = (Inl x, w') \<longrightarrow>
            CachedFetcher_call self k e = (Inl x, e\<lparr>world := w', fetched := fetched e @ [k]\<rparr>)
            \<and> fetched (snd (CachedFetcher_call self k (snd (CachedFetcher_call self k e))))
                = fetched e @ [k, k])"
  using assms
  by (auto simp add: cf_defs split: prod.splits sum.splits)

text \<open>
  The first call on an empty database fails and stores nothing; the second call
  invokes the fetcher again, succeeds, and stores the result.
\<close>

theorem cache_miss_witness:
  "CachedFetcher_call (ex_self (Some (OpenShelf ex_path))) ''RJ123456''
      (ex_env (ex_files_db Map.empty) 0 [])
     = (Inl URLError, ex_env (ex_files_db Map.empty) 1 [''RJ123456''])
   \<and> CachedFetcher_call (ex_self (Some (OpenShelf ex_path))) ''RJ123456''
      (ex_env (ex_files_db Map.empty) 1 [''RJ123456''])
     = (Inr ''work RJ123456'',
        ex_env (ex_files_db [''RJ123456'' \<mapsto> ''work RJ123456'']) 2
          [''RJ123456'', ''RJ123456''])"
proof -
  have s: "self_shelf (ex_self (Some (OpenShelf ex_path))) = Some (OpenShelf ex_path)"
    by (simp add: ex_defs)
  have m: "(Map.empty :: string \<Rightarrow> string option) ''RJ123456'' = None"
    by simp
  have f0: "files (ex_env (ex_files_db Map.empty) 0 []) ex_path = Some (DbFile Map.empty)"
    by (simp add: ex_defs)
  have f1: "files (ex_env (ex_files_db Map.empty) 1 [''RJ123456'']) ex_path
              = Some (DbFile Map.empty)"
    by (simp add: ex_defs)
  from cache_miss [OF s f0 m] cache_miss [OF s f1 m] show ?thesis
    by (simp add: ex_defs)
qed

text \<open>A call never disturbs an entry that is already in the database.\<close>

lemma call_keeps_entry:
  assumes "shelf_getitem (self_shelf self) (files e) k = Inr v"
    and "CachedFetcher_call self k' e = (r, e')"
  shows "shelf_getitem (self_shelf self) (files e') k = Inr v
       \<and> count_list (fetched e') k = count_list (fetched e) k
       \<and> (k' = k \<longrightarrow> r = Inr v \<and> e' = e)"
  using assms
  by (auto simp add: cf_defs split: prod.splits sum.splits option.splits shelf.splits
      node.splits if_splits)

lemma call_each_keeps_entry:
  "shelf_getitem (self_shelf self) (files e) k = Inr v \<Longrightarrow>
   call_each self ks e = (rs, e') \<Longrightarrow>
   list_all2 (\<lambda>k' r. k' = k \<longrightarrow> r = Inr v) ks rs
   \<and> count_list (fetched e') k = count_list (fetched e) k
   \<and> shelf_getitem (self_shelf self) (files e') k = Inr v"
proof (induction ks arbitrary: e rs e')
  case Nil
  then show ?case by simp
next
  case (Cons k' ks)
  obtain r e1 where c: "CachedFetcher_call self k' e = (r, e1)"
    by (cases "CachedFetcher_call self k' e")
  obtain rs' e2 where t: "call_each self ks e1 = (rs', e2)"
    by (cases "call_each self ks e1")
  from Cons.prems(2) c t have eq: "rs = r # rs'" "e' = e2"
    by simp_all
  from call_keeps_entry [OF Cons.prems(1) c]
  have h: "shelf_getitem (self_shelf self) (files e1) k = Inr v"
    and n: "count_list (fetched e1) k = count_list (fetched e) k"
    and r: "k' = k \<longrightarrow> r = Inr v"
    by simp_all
  from Cons.IH [OF h t] eq n r show ?case
    by simp
qed

lemma call_success_stores:
  assumes "CachedFetcher_call self k e = (Inr v, e1)"
  shows "shelf_getitem (self_shelf self) (files e1) k = Inr v
       \<and> count_list (fetched e1) k \<le> count_list (fetched e) k + 1"
  using assms
  by (auto simp add: cf_defs split: prod.splits sum.splits option.splits shelf.splits
      node.splits if_splits)

text \<open>
  C2.  Once a call for an identifier has succeeded, then in any further sequence of
  calls on the same object (for this and for other identifiers) every call for that
  identifier returns the same value, and none of the calls invokes the wrapped fetcher
  for it: from before the first call to the end, the fetcher is invoked for the
  identifier at most once.
\<close>

theorem fetch_at_most_once:
  assumes "CachedFetcher_call self k e = (Inr v, e1)"
    and "call_each self ks e1 = (rs, e2)"
  shows "list_all2 (\<lambda>k' r. k' = k \<longrightarrow> r = Inr v) ks rs
       \<and> count_list (fetched e2) k = count_list (fetched e1) k
       \<and> count_list (fetched e2) k \<le> count_list (fetched e) k + 1"
  using call_success_stores [OF assms(1)] call_each_keeps_entry [OF _ assms(2), of k v]
  by simp

text \<open>
  A miss that succeeds, followed by two more calls for the same identifier: one
  invocation of the fetcher in all.
\<close>

theorem fetch_at_most_once_witness:
  "CachedFetcher_call (ex_self (Some (OpenShelf ex_path))) ''RJ123456''
      (ex_env (ex_files_db Map.empty) 1 [])
     = (Inr ''work RJ123456'',
        ex_env (ex_files_db [''RJ123456'' \<mapsto> ''work RJ123456'']) 2 [''RJ123456''])
   \<and> call_each (ex_self (Some (OpenShelf ex_path))) [''RJ123456'', ''RJ123456'']
        (ex_env (ex_files_db [''RJ123456'' \<mapsto> ''work RJ123456'']) 2 [''RJ123456''])
     = ([Inr ''work RJ123456'', Inr ''work RJ123456''],
        ex_env (ex_files_db [''RJ123456'' \<mapsto> ''work RJ123456'']) 2 [''RJ123456''])
   \<and> count_list [''RJ123456''] ''RJ123456'' \<le> count_list [] ''RJ123456'' + 1"
proof -
  have a: "CachedFetcher_call (ex_self (Some (OpenShelf ex_path))) ''RJ123456''
      (ex_env (ex_files_db Map.empty) 1 [])
     = (Inr ''work RJ123456'',
        ex_env (ex_files_db [''RJ123456'' \<mapsto> ''work RJ123456'']) 2 [''RJ123456''])"
    by (simp add: ex_defs cf_defs)
  have b: "call_each (ex_self (Some (OpenShelf ex_path))) [''RJ123456'', ''RJ123456'']
        (ex_env (ex_files_db [''RJ123456'' \<mapsto> ''work RJ123456'']) 2 [''RJ123456''])
     = ([Inr ''work RJ123456'', Inr ''work RJ123456''],
        ex_env (ex_files_db [''RJ123456'' \<mapsto> ''work RJ123456'']) 2 [''RJ123456''])"
    by (simp add: ex_defs cf_defs)
  from fetch_at_most_once [OF a b] a b show ?thesis
    by (simp add: ex_defs)
qed

text \<open>
  C3, as the claim states it, fails after \<open>close\<close>: an object that was opened and
  then closed does not answer a call with the error
  \<open>ValueError('called unopened CachedFetcher')\<close>.
\<close>

theorem call_closed_counterexample:
  "CachedFetcher_init ex_path ex_fetcher = ex_self None
   \<and> CachedFetcher_enter (ex_self None) (ex_env ex_files 0 [])
       = (Inr (ex_self (Some (OpenShelf ex_path))), ex_env (ex_files_db Map.empty) 0 [])
   \<and> CachedFetcher_close (ex_self (Some (OpenShelf ex_path))) = Inr (ex_self (Some ClosedShelf))
   \<and> fst (CachedFetcher_call (ex_self (Some ClosedShelf)) ''RJ123456''
            (ex_env (ex_files_db Map.empty) 0 []))
       \<noteq> Inl (ValueError ''called unopened CachedFetcher'')"
  by (simp add: ex_defs cf_defs path_error_def ancestors_def)

text \<open>
  C3, amended.  A call on an object that was never opened fails with
  \<open>ValueError('called unopened CachedFetcher')\<close>; a call on an object that has been
  closed fails with the closed shelf's own error,
  \<open>ValueError('invalid operation on closed shelf')\<close>.  In both states no value is
  returned and nothing changes: the wrapped fetcher is not invoked and the file system
  is as before.
\<close>

theorem call_unopened_or_closed:
  "CachedFetcher_call (CachedFetcher_init p f) k e
     = (Inl (ValueError ''called unopened CachedFetcher''), e)
   \<and> (CachedFetcher_close self = Inr self' \<longrightarrow>
        CachedFetcher_call self' k e
          = (Inl (ValueError ''invalid operation on closed shelf''), e))"
  by (auto simp add: CachedFetcher_close_def CachedFetcher_init_def
      shelf_close_def CachedFetcher_call_def shelf_getitem_def split: option.splits)

theorem call_unopened_or_closed_witness:
  "CachedFetcher_call (CachedFetcher_init ex_path ex_fetcher) ''RJ123456'' (ex_env ex_files 0 [])
     = (Inl (ValueError ''called unopened CachedFetcher''), ex_env ex_files 0 [])
   \<and> CachedFetcher_close (ex_self (Some (OpenShelf ex_path))) = Inr (ex_self (Some ClosedShelf))
   \<and> CachedFetcher_call (ex_self (Some ClosedShelf)) ''RJ123456''
        (ex_env (ex_files_db Map.empty) 0 [])
     = (Inl (ValueError ''invalid operation on closed shelf''),
        ex_env (ex_files_db Map.empty) 0 [])"
proof -
  have c: "CachedFetcher_close (ex_self (Some (OpenShelf ex_path)))
             = Inr (ex_self (Some ClosedShelf))"
    by (simp add: ex_defs CachedFetcher_close_def shelf_close_def)
  from call_unopened_or_closed [of ex_path ex_fetcher "''RJ123456''" "ex_env ex_files 0 []"]
    call_unopened_or_closed [of ex_path ex_fetcher "''RJ123456''"
      "ex_env (ex_files_db Map.empty) 0 []" "ex_self (Some (OpenShelf ex_path))"
      "ex_self (Some ClosedShelf)"] c
  show ?thesis by simp
qed

text \<open>
  C10.  \<open>close()\<close> on an object that was never opened raises \<open>AttributeError\<close>, and
  so does \<open>__exit__\<close>, which only calls \<open>close()\<close>; neither returns normally and
  neither raises the error that \<open>__call__\<close> raises in that state,
  \<open>ValueError('called unopened CachedFetcher')\<close>.
\<close>

theorem close_never_opened:
  "CachedFetcher_close (CachedFetcher_init p f) = Inl AttributeError
   \<and> CachedFetcher_exit (CachedFetcher_init p f) = Inl AttributeError
   \<and> AttributeError \<noteq> ValueError ''called unopened CachedFetcher''
   \<and> CachedFetcher_call (CachedFetcher_init p f) k e
       = (Inl (ValueError ''called unopened CachedFetcher''), e)"
  by (simp add: CachedFetcher_close_def CachedFetcher_exit_def CachedFetcher_init_def
      shelf_close_def CachedFetcher_call_def shelf_getitem_def)

theorem close_never_opened_witness:
  "CachedFetcher_close (CachedFetcher_init ex_path ex_fetcher) = Inl AttributeError
   \<and> CachedFetcher_exit (CachedFetcher_init ex_path ex_fetcher) = Inl AttributeError
   \<and> fst (CachedFetcher_call (CachedFetcher_init ex_path ex_fetcher) ''RJ123456''
            (ex_env ex_files 0 []))
       = Inl (ValueError ''called unopened CachedFetcher'')"
  using close_never_opened [of ex_path ex_fetcher "''RJ123456''" "ex_env ex_files 0 []"]
  by simp

section \<open>Properties of \<open>get_fetcher\<close>\<close>

lemma ancestors_Nil: "ancestors [] = []"
  by (simp add: ancestors_def)

lemma ancestors_snoc: "ancestors (p @ [c]) = ancestors p @ [p]"
  by (simp add: ancestors_def)

lemma ancestors_shorter: "q \<in> set (ancestors p) \<Longrightarrow> length q < length p"
  by (auto simp add: ancestors_def)

lemma find_Some_member: "find P xs = Some x \<Longrightarrow> x \<in> set xs \<and> P x"
  by (induction xs) (auto split: if_splits)

lemma path_error_None_iff:
  "path_error fs p = None \<longleftrightarrow> (\<forall>q \<in> set (ancestors p). fs q = Some Dir)"
  by (auto simp add: path_error_def find_None_iff split: option.splits
      dest: find_Some_member)

lemma path_error_missing:
  assumes "\<forall>q \<in> set (ancestors p). fs q = None \<or> fs q = Some Dir"
    and "path_error fs p = Some e"
  shows "e = FileNotFoundError"
  using assms
  by (auto simp add: path_error_def split: option.splits if_splits dest!: find_Some_member)

text \<open>Making one directory whose parent is there.\<close>

lemma Path_mkdir_ok:
  assumes "\<forall>q \<in> set (ancestors p). fs q = Some Dir"
    and "fs p = None \<or> fs p = Some Dir"
  shows "\<exists>fs'. Path_mkdir fs p = Inr fs' \<and> fs' p = Some Dir
           \<and> (\<forall>q. q \<noteq> p \<longrightarrow> fs' q = fs q) \<and> (\<forall>q. fs q \<noteq> None \<longrightarrow> fs' q = fs q)"
proof -
  from assms(1) have pe: "path_error fs p = None"
    by (simp add: path_error_None_iff)
  from assms(2) show ?thesis
  proof
    assume "fs p = None"
    with pe show ?thesis
      by (auto simp add: Path_mkdir_def os_mkdir_def)
  next
    assume "fs p = Some Dir"
    with pe show ?thesis
      by (simp add: Path_mkdir_def os_mkdir_def is_dir_def)
  qed
qed

lemma dirs_after_mkdir:
  assumes "fs' p = Some Dir"
    and "\<forall>q. q \<noteq> p \<longrightarrow> fs' q = fs q"
    and "\<forall>q \<in> set qs. fs q = Some Dir"
  shows "\<forall>q \<in> set (qs @ [p]). fs' q = Some Dir"
proof
  fix q
  assume "q \<in> set (qs @ [p])"
  then have "q = p \<or> q \<in> set qs" by auto
  with assms show "fs' q = Some Dir" by metis
qed

text \<open>
  Making a directory with its parents succeeds when nothing but directories is in the
  way; afterwards the path and all paths above it are directories, and nothing that
  existed has changed.
\<close>

lemma Path_mkdir_parents_ok:
  "dirs_or_missing fs p \<Longrightarrow>
     \<exists>fs'. Path_mkdir_parents fs p = Inr fs'
       \<and> (\<forall>q \<in> set (ancestors p @ [p]). fs' q = Some Dir)
       \<and> (\<forall>q. q \<notin> set (ancestors p @ [p]) \<longrightarrow> fs' q = fs q)
       \<and> (\<forall>q. fs q \<noteq> None \<longrightarrow> fs' q = fs q)"
proof (induction p arbitrary: fs rule: rev_induct)
  case Nil
  then have "fs [] = None \<or> fs [] = Some Dir"
    by (simp add: dirs_or_missing_def)
  then show ?case
    by (auto simp add: Path_mkdir_parents.simps [of fs "[]"] os_mkdir_def path_error_def
        ancestors_Nil is_dir_def)
next
  case (snoc c xs)
  let ?p = "xs @ [c]"
  from snoc.prems have anc: "\<forall>q \<in> set (ancestors ?p). fs q = None \<or> fs q = Some Dir"
    and self: "fs ?p = None \<or> fs ?p = Some Dir"
    by (simp_all add: dirs_or_missing_def)
  have notin: "?p \<notin> set (ancestors ?p)"
    using ancestors_shorter [of ?p ?p] by auto
  show ?case
  proof (cases "path_error fs ?p")
    case None
    then have up: "\<forall>q \<in> set (ancestors ?p). fs q = Some Dir"
      by (simp add: path_error_None_iff)
    from Path_mkdir_ok [OF this self]
    obtain fs' where m: "Path_mkdir fs ?p = Inr fs'" and d: "fs' ?p = Some Dir"
      and o: "\<forall>q. q \<noteq> ?p \<longrightarrow> fs' q = fs q" and k: "\<forall>q. fs q \<noteq> None \<longrightarrow> fs' q = fs q"
      by blast
    from None m have "Path_mkdir_parents fs ?p = Inr fs'"
      by (auto simp add: Path_mkdir_parents.simps [of fs ?p] Path_mkdir_def os_mkdir_def
          split: if_splits)
    moreover from d o up have "\<forall>q \<in> set (ancestors ?p @ [?p]). fs' q = Some Dir"
      by (rule dirs_after_mkdir)
    moreover from o have "\<forall>q. q \<notin> set (ancestors ?p @ [?p]) \<longrightarrow> fs' q = fs q"
      by simp
    ultimately show ?thesis using k by blast
  next
    case (Some e)
    with anc have e: "e = FileNotFoundError"
      by (rule path_error_missing)
    from anc have "dirs_or_missing fs xs"
      by (simp add: dirs_or_missing_def ancestors_snoc)
    from snoc.IH [OF this]
    obtain fs1 where r: "Path_mkdir_parents fs xs = Inr fs1"
      and d1: "\<forall>q \<in> set (ancestors xs @ [xs]). fs1 q = Some Dir"
      and o1: "\<forall>q. q \<notin> set (ancestors xs @ [xs]) \<longrightarrow> fs1 q = fs q"
      and k1: "\<forall>q. fs q \<noteq> None \<longrightarrow> fs1 q = fs q"
      by blast
    from d1 have a1: "\<forall>q \<in> set (ancestors ?p). fs1 q = Some Dir"
      by (simp add: ancestors_snoc)
    from notin o1 have "fs1 ?p = fs ?p"
      by (simp add: ancestors_snoc)
    with self have s1: "fs1 ?p = None \<or> fs1 ?p = Some Dir"
      by simp
    from Path_mkdir_ok [OF a1 s1]
    obtain fs' where m: "Path_mkdir fs1 ?p = Inr fs'" and d: "fs' ?p = Some Dir"
      and o: "\<forall>q. q \<noteq> ?p \<longrightarrow> fs' q = fs1 q" and k: "\<forall>q. fs1 q \<noteq> None \<longrightarrow> fs' q = fs1 q"
      by blast
    from Some e r m have "Path_mkdir_parents fs ?p = Inr fs'"
      by (simp add: Path_mkdir_parents.simps [of fs ?p] os_mkdir_def)
    moreover from d o a1 have "\<forall>q \<in> set (ancestors ?p @ [?p]). fs' q = Some Dir"
      by (rule dirs_after_mkdir)
    moreover from o o1 have "\<forall>q. q \<notin> set (ancestors ?p @ [?p]) \<longrightarrow> fs' q = fs q"
      by (simp add: ancestors_snoc)
    moreover from k k1 have "\<forall>q. fs q \<noteq> None \<longrightarrow> fs' q = fs q"
      by metis
    ultimately show ?thesis by blast
  qed
qed

text \<open>
  C9.  Whatever the file system holds, \<open>get_fetcher\<close> uses the path
  \<open>.cache/mir.dlsite.db\<close> below the home directory.  When nothing but directories is
  in the way of \<open>.cache\<close>, it returns an unopened cached fetcher for that path that
  wraps \<open>fetch_work\<close>; afterwards \<open>.cache\<close> is a directory and only missing
  directories above the database have been made.  Entering that fetcher then opens
  the shelf on that path: on first use, when there is no database yet, an empty
  database is created there and nothing else changes; on a later run the database
  that is there is opened as it is.
\<close>

theorem get_fetcher_cache_path:
  assumes "dirs_or_missing fs (home @ [''.cache''])"
  shows "\<exists>fs'. get_fetcher lib bs home fs
               = Inr (CachedFetcher_init (home @ [''.cache'', ''mir.dlsite.db''])
                        (fetch_work lib bs), fs')
           \<and> is_dir fs' (home @ [''.cache''])
           \<and> (\<forall>q. fs q \<noteq> None \<longrightarrow> fs' q = fs q)
           \<and> (\<forall>q. q \<notin> set (ancestors (home @ [''.cache'']) @ [home @ [''.cache'']]) \<longrightarrow>
                  fs' q = fs q)
           \<and> (fs (home @ [''.cache'', ''mir.dlsite.db'']) = None \<longrightarrow>
                 CachedFetcher_enter
                    (CachedFetcher_init (home @ [''.cache'', ''mir.dlsite.db''])
                       (fetch_work lib bs))
                    \<lparr>files = fs', world = w, fetched = l\<rparr>
                  = (Inr \<lparr>self_fetcher = fetch_work lib bs,
                           self_path = home @ [''.cache'', ''mir.dlsite.db''],
                           self_shelf =
                             Some (OpenShelf (home @ [''.cache'', ''mir.dlsite.db'']))\<rparr>,
                     \<lparr>files = fs'(home @ [''.cache'', ''mir.dlsite.db''] \<mapsto> DbFile Map.empty),
                      world = w, fetched = l\<rparr>))
           \<and> (\<forall>m. fs (home @ [''.cache'', ''mir.dlsite.db'']) = Some (DbFile m) \<longrightarrow>
                 fs' (home @ [''.cache'', ''mir.dlsite.db'']) = Some (DbFile m)
                 \<and> CachedFetcher_enter
                    (CachedFetcher_init (home @ [''.cache'', ''mir.dlsite.db''])
                       (fetch_work lib bs))
                    \<lparr>files = fs', world = w, fetched = l\<rparr>
                  = (Inr \<lparr>self_fetcher = fetch_work lib bs,
                           self_path = home @ [''.cache'', ''mir.dlsite.db''],
                           self_shelf =
                             Some (OpenShelf (home @ [''.cache'', ''mir.dlsite.db'']))\<rparr>,
                     \<lparr>files = fs', world = w, fetched = l\<rparr>))"
proof -
  let ?d = "home @ [''.cache'']"
  let ?c = "home @ [''.cache'', ''mir.dlsite.db'']"
  let ?init = "CachedFetcher_init ?c (fetch_work lib bs)"
  let ?open = "\<lparr>self_fetcher = fetch_work lib bs, self_path = ?c,
                self_shelf = Some (OpenShelf ?c)\<rparr>"
  from Path_mkdir_parents_ok [OF assms]
  obtain fs' where r: "Path_mkdir_parents fs ?d = Inr fs'"
    and d: "\<forall>q \<in> set (ancestors ?d @ [?d]). fs' q = Some Dir"
    and o: "\<forall>q. q \<notin> set (ancestors ?d @ [?d]) \<longrightarrow> fs' q = fs q"
    and k: "\<forall>q. fs q \<noteq> None \<longrightarrow> fs' q = fs q"
    by blast
  have c: "CACHE home = ?c" and b: "butlast (CACHE home) = ?d"
    by (simp_all add: CACHE_def butlast_append)
  from r b c have g: "get_fetcher lib bs home fs = Inr (?init, fs')"
    by (simp add: get_fetcher_def)
  from d have i: "is_dir fs' ?d"
    by (simp add: is_dir_def path_error_None_iff)
  have anc: "ancestors ?c = ancestors ?d @ [?d]"
    using ancestors_snoc [of ?d "''mir.dlsite.db''"] by simp
  with d have pe: "path_error fs' ?c = None"
    by (simp add: path_error_None_iff)
  have "?c \<notin> set (ancestors ?c)"
    using ancestors_shorter [of ?c ?c] by auto
  with o anc have same: "fs' ?c = fs ?c"
    by simp
  have first: "fs ?c = None \<longrightarrow>
      CachedFetcher_enter ?init \<lparr>files = fs', world = w, fetched = l\<rparr>
        = (Inr ?open, \<lparr>files = fs'(?c \<mapsto> DbFile Map.empty), world = w, fetched = l\<rparr>)"
    using pe same
    by (simp add: CachedFetcher_enter_def CachedFetcher_init_def shelve_open_def)
  have later: "\<forall>m. fs ?c = Some (DbFile m) \<longrightarrow>
      fs' ?c = Some (DbFile m)
      \<and> CachedFetcher_enter ?init \<lparr>files = fs', world = w, fetched = l\<rparr>
          = (Inr ?open, \<lparr>files = fs', world = w, fetched = l\<rparr>)"
    using pe same
    by (simp add: CachedFetcher_enter_def CachedFetcher_init_def shelve_open_def)
  show ?thesis
    by (rule exI [of _ fs']) (intro conjI g i k o first later)
qed

text \<open>
  A home directory without \<open>.cache\<close>: the directory is made, entering the fetcher
  creates the empty database, and a lookup in it is a miss.  On the file system that
  this leaves, a second run makes nothing and opens the same database.
\<close>

theorem get_fetcher_cache_path_witness:
  "dirs_or_missing ex_home_files (ex_home @ [''.cache''])
   \<and> get_fetcher ex_pages ex_bs4 ex_home ex_home_files
       = Inr (CachedFetcher_init [''home'', ''user'', ''.cache'', ''mir.dlsite.db'']
                (fetch_work ex_pages ex_bs4),
              ex_home_files([''home'', ''user'', ''.cache''] \<mapsto> Dir))
   \<and> CachedFetcher_enter
        (CachedFetcher_init [''home'', ''user'', ''.cache'', ''mir.dlsite.db'']
           (fetch_work ex_pages ex_bs4))
        \<lparr>files = ex_home_files([''home'', ''user'', ''.cache''] \<mapsto> Dir),
         world = ex_site [], fetched = []\<rparr>
       = (Inr \<lparr>self_fetcher = fetch_work ex_pages ex_bs4,
                self_path = [''home'', ''user'', ''.cache'', ''mir.dlsite.db''],
                self_shelf =
                  Some (OpenShelf [''home'', ''user'', ''.cache'', ''mir.dlsite.db''])\<rparr>,
          \<lparr>files = ex_home_files
                     ([''home'', ''user'', ''.cache''] \<mapsto> Dir,
                      [''home'', ''user'', ''.cache'', ''mir.dlsite.db''] \<mapsto> DbFile Map.empty),
           world = ex_site [], fetched = []\<rparr>)
   \<and> shelf_getitem (Some (OpenShelf [''home'', ''user'', ''.cache'', ''mir.dlsite.db'']))
        (ex_home_files
           ([''home'', ''user'', ''.cache''] \<mapsto> Dir,
            [''home'', ''user'', ''.cache'', ''mir.dlsite.db''] \<mapsto> DbFile Map.empty))
        ''RJ123456''
       = Inl KeyError
   \<and> get_fetcher ex_pages ex_bs4 ex_home
        (ex_home_files
           ([''home'', ''user'', ''.cache''] \<mapsto> Dir,
            [''home'', ''user'', ''.cache'', ''mir.dlsite.db''] \<mapsto> DbFile Map.empty))
       = Inr (CachedFetcher_init [''home'', ''user'', ''.cache'', ''mir.dlsite.db'']
                (fetch_work ex_pages ex_bs4),
              ex_home_files
                ([''home'', ''user'', ''.cache''] \<mapsto> Dir,
                 [''home'', ''user'', ''.cache'', ''mir.dlsite.db''] \<mapsto> DbFile Map.empty))"
proof -
  let ?d = "[''home'', ''user'', ''.cache'']"
  let ?c = "[''home'', ''user'', ''.cache'', ''mir.dlsite.db'']"
  let ?fs2 = "ex_home_files(?d \<mapsto> Dir, ?c \<mapsto> DbFile Map.empty)"
  have h: "dirs_or_missing ex_home_files (ex_home @ [''.cache''])"
    by (simp add: dirs_or_missing_def ex_home_files_def ex_home_def ancestors_def upt_rec)
  have g: "get_fetcher ex_pages ex_bs4 ex_home ex_home_files
       = Inr (CachedFetcher_init ?c (fetch_work ex_pages ex_bs4), ex_home_files(?d \<mapsto> Dir))"
    by (simp add: get_fetcher_def CACHE_def ex_home_def ex_home_files_def
        Path_mkdir_parents.simps [of _ ?d] os_mkdir_def path_error_def ancestors_def upt_rec)
  have n: "ex_home_files (ex_home @ [''.cache'', ''mir.dlsite.db'']) = None"
    by (simp add: ex_home_def ex_home_files_def)
  have l: "shelf_getitem (Some (OpenShelf ?c)) ?fs2 ''RJ123456'' = Inl KeyError"
    by (simp add: shelf_getitem_def)
  have g2: "get_fetcher ex_pages ex_bs4 ex_home ?fs2
       = Inr (CachedFetcher_init ?c (fetch_work ex_pages ex_bs4), ?fs2)"
    by (simp add: get_fetcher_def CACHE_def ex_home_def ex_home_files_def
        Path_mkdir_parents.simps [of _ ?d] os_mkdir_def path_error_def is_dir_def
        ancestors_def upt_rec)
  from get_fetcher_cache_path [OF h, of ex_pages ex_bs4 "ex_site []" "[]"] g h n l g2
  show ?thesis
    by (auto simp add: ex_home_def)
qed

section \<open>Properties of \<open>main\<close>\<close>

lemma execute_each_append:
  "execute_each og d (pre @ rs) s
     = (case execute_each og d pre s of
          (Inl e, s1) \<Rightarrow> (Inl e, s1)
        | (Inr u, s1) \<Rightarrow> execute_each og d rs s1)"
  by (induction pre arbitrary: s) (auto split: prod.splits sum.splits)

lemma execute_each_printed:
  "printed (snd (execute_each og d rs s)) = printed s"
  by (induction rs arbitrary: s) (auto split: prod.splits sum.splits)

lemma main_printed: "printed (snd (main og a s)) = printed s"
proof (cases "dry_run a")
  case True
  then show ?thesis by (simp add: main_def Let_def)
next
  case False
  let ?rs = "calculate_path_renames og (fsys s) (selected_works og a (fsys s))"
  from execute_each_printed [of og "top_dir a" ?rs s] False show ?thesis
    by (auto simp add: main_def Let_def split: prod.splits sum.splits)
qed


text \<open>
  C5, as the claim states it, fails: of three planned renames the second raises, and
  \<open>main\<close> ends with that exception; the third rename, which would succeed, is never
  executed and the empty directories are not removed.
\<close>

theorem main_execute_counterexample:
  "calculate_path_renames ex_org (fsys (ex_process []))
       (selected_works ex_org (ex_args False True) (fsys (ex_process [])))
     = [''RJ111111'', ''RJ222222'', ''RJ333333'']
   \<and> execute ex_org ''RJ333333'' [''works''] [''renamed RJ111111'']
       = (Inr (), [''renamed RJ111111'', ''renamed RJ333333''])
   \<and> main ex_org (ex_args False True) (ex_process [])
       = (Inl FileExistsError, ex_process [''renamed RJ111111''])"
  by (simp add: main_def selected_works_def org_defs)

text \<open>
  C5, amended.  Without \<open>--dry-run\<close> the renames of the plan are executed in order.
  When all of them succeed, \<open>remove_empty_dirs\<close> runs on the top directory and its
  outcome is the outcome of \<open>main\<close>.  When one of them raises, \<open>main\<close> ends with that
  exception in the state that rename left: the renames after it are not attempted and
  \<open>remove_empty_dirs\<close> does not run.  In no case does \<open>main\<close> print anything.
\<close>

theorem main_execute:
  assumes "\<not> dry_run a"
    and "renames = calculate_path_renames og (fsys s) (selected_works og a (fsys s))"
  shows "(\<forall>s1. execute_each og (top_dir a) renames s = (Inr (), s1) \<longrightarrow>
            main og a s
              = (case remove_empty_dirs og (top_dir a) (fsys s1) of
                   (res, f') \<Rightarrow> (res, s1\<lparr>fsys := f'\<rparr>)))
       \<and> (\<forall>pre r post s1 e f2.
            renames = pre @ r # post
            \<and> execute_each og (top_dir a) pre s = (Inr (), s1)
            \<and> execute og r (top_dir a) (fsys s1) = (Inl e, f2) \<longrightarrow>
            main og a s = (Inl e, s1\<lparr>fsys := f2\<rparr>))
       \<and> printed (snd (main og a s)) = printed s"
proof -
  have "(\<forall>s1. execute_each og (top_dir a) renames s = (Inr (), s1) \<longrightarrow>
            main og a s
              = (case remove_empty_dirs og (top_dir a) (fsys s1) of
                   (res, f') \<Rightarrow> (res, s1\<lparr>fsys := f'\<rparr>)))
       \<and> (\<forall>pre r post s1 e f2.
            renames = pre @ r # post
            \<and> execute_each og (top_dir a) pre s = (Inr (), s1)
            \<and> execute og r (top_dir a) (fsys s1) = (Inl e, f2) \<longrightarrow>
            main og a s = (Inl e, s1\<lparr>fsys := f2\<rparr>))"
    using assms
    by (auto simp add: main_def Let_def execute_each_append split: prod.splits sum.splits)
  with main_printed [of og a s] show ?thesis by blast
qed

text \<open>
  With \<open>--all\<close> the second of three renames fails and the run ends there; without
  \<open>--all\<close> the two renames of the plan succeed and the cleanup runs.
\<close>

theorem main_execute_witness:
  "main ex_org (ex_args False True) (ex_process [])
     = (Inl FileExistsError, ex_process [''renamed RJ111111''])
   \<and> main ex_org (ex_args False False) (ex_process [])
       = (Inr (), ex_process [''renamed RJ111111'', ''renamed RJ333333'',
                              ''removed empty directories''])"
proof -
  have d: "\<not> dry_run (ex_args False True)" "\<not> dry_run (ex_args False False)"
    by (simp_all add: org_defs)
  have r: "[''RJ111111'', ''RJ222222'', ''RJ333333'']
             = calculate_path_renames ex_org (fsys (ex_process []))
                 (selected_works ex_org (ex_args False True) (fsys (ex_process [])))"
    by (simp add: selected_works_def org_defs)
  have p: "[''RJ111111'', ''RJ222222'', ''RJ333333'']
             = [''RJ111111''] @ ''RJ222222'' # [''RJ333333'']"
    by simp
  have x: "execute_each ex_org (top_dir (ex_args False True)) [''RJ111111''] (ex_process [])
             = (Inr (), ex_process [''renamed RJ111111''])"
    by (simp add: org_defs)
  have y: "execute ex_org ''RJ222222'' (top_dir (ex_args False True))
             (fsys (ex_process [''renamed RJ111111'']))
             = (Inl FileExistsError, [''renamed RJ111111''])"
    by (simp add: org_defs)
  from main_execute [OF d(1) r] p x y
  have a: "main ex_org (ex_args False True) (ex_process [])
          = (Inl FileExistsError,
             (ex_process [''renamed RJ111111''])\<lparr>fsys := [''renamed RJ111111'']\<rparr>)"
    by blast
  have r': "[''RJ111111'', ''RJ333333'']
             = calculate_path_renames ex_org (fsys (ex_process []))
                 (selected_works ex_org (ex_args False False) (fsys (ex_process [])))"
    by (simp add: selected_works_def org_defs)
  have x': "execute_each ex_org (top_dir (ex_args False False)) [''RJ111111'', ''RJ333333'']
              (ex_process [])
             = (Inr (), ex_process [''renamed RJ111111'', ''renamed RJ333333''])"
    by (simp add: org_defs)
  from main_execute [OF d(2) r'] x'
  have b: "main ex_org (ex_args False False) (ex_process [])
          = (case remove_empty_dirs ex_org (top_dir (ex_args False False))
                    (fsys (ex_process [''renamed RJ111111'', ''renamed RJ333333''])) of
               (res, f') \<Rightarrow>
                 (res, (ex_process [''renamed RJ111111'', ''renamed RJ333333''])\<lparr>fsys := f'\<rparr>))"
    by blast
  from a b show ?thesis
    by (simp add: org_defs)
qed

text \<open>
  C6, as the claim states it, fails: with \<open>--dry-run\<close> and a plan of three renames,
  \<open>main\<close> prints nothing.
\<close>

theorem main_dry_run_counterexample:
  "calculate_path_renames ex_org (fsys (ex_process []))
       (selected_works ex_org (ex_args True True) (fsys (ex_process [])))
     = [''RJ111111'', ''RJ222222'', ''RJ333333'']
   \<and> printed (snd (main ex_org (ex_args True True) (ex_process []))) = []"
  by (simp add: main_def selected_works_def org_defs)

text \<open>
  C6, amended.  With \<open>--dry-run\<close>, \<open>main\<close> asks for the plan and then does nothing
  with it: it returns normally, no rename is executed, no directory is removed, and
  nothing is printed.
\<close>

theorem main_dry_run:
  "dry_run a \<Longrightarrow> main og a s = (Inr (), s)"
  by (simp add: main_def Let_def)

theorem main_dry_run_witness:
  "main ex_org (ex_args True True) (ex_process []) = (Inr (), ex_process [])"
  using main_dry_run [of "ex_args True True" ex_org "ex_process []"]
  by (simp add: org_defs)



end
